theory Spec2Isabelle
  imports Complex_Main
begin

section \<open>The pizza order state machine (08.pizza-order-state-machine.py)\<close>

text \<open>
  The order bot keeps an \<open>OrderState\<close> (a dictionary whose keys are all optional), and
  every tool returns a \<open>Command\<close> whose \<open>update\<close> dictionary the agent framework writes
  into that state. The middleware \<open>apply_step_config\<close> picks, from \<open>STEP_CONFIG\<close>, the
  prompt and the tools of the current step before each model call.

  Python values are modelled as follows.
  \<^item> \<open>str\<close> is \<open>string\<close>, the UTF-8 bytes of the text: the program only concatenates
    strings, and concatenation commutes with the encoding.
  \<^item> \<open>int\<close> is \<open>int\<close>.
  \<^item> \<open>float\<close> is the exact value of a finite IEEE-754 binary64 number, a \<open>rat\<close>. Every
    arithmetic result is rounded to the nearest binary64 value, ties to even
    (\<open>float_round\<close>). Infinities, NaN, the sign of zero and overflow are outside the
    model: the exponent is unbounded above, so a product beyond the largest float is a
    number here (Python gives \<open>inf\<close>), and so is the conversion of an integer beyond it
    (Python raises \<open>OverflowError\<close>).
  \<^item> an absent dictionary key (\<open>NotRequired\<close>) is \<open>None\<close>.
\<close>

subsection \<open>Python floats\<close>

function bitlen :: "int \<Rightarrow> int" where
  \<comment> \<open>the number of binary digits of a positive integer\<close>
  "bitlen n = (if n \<le> 0 then 0 else 1 + bitlen (n div 2))"
  by pat_completeness auto
termination
  by (relation "measure nat") auto

declare bitlen.simps [simp del]

definition floor_log2 :: "rat \<Rightarrow> int" where
  \<comment> \<open>for \<open>0 < x\<close>: the \<open>e\<close> with \<open>2 ^ e \<le> x < 2 ^ (e + 1)\<close>\<close>
  "floor_log2 x =
     (if 1 \<le> x then bitlen \<lfloor>x\<rfloor> - 1
      else - bitlen (\<lceil>1 / x\<rceil> - 1))"

definition round_half_even :: "rat \<Rightarrow> int" where
  "round_half_even x =
     (let f = \<lfloor>x\<rfloor>; d = x - of_int f
      in if d < 1 / 2 then f
         else if 1 / 2 < d then f + 1
         else if even f then f else f + 1)"

definition pow2 :: "int \<Rightarrow> rat" where
  "pow2 e = (if 0 \<le> e then 2 ^ nat e else 1 / 2 ^ nat (- e))"

definition float_round :: "rat \<Rightarrow> rat" where
  \<comment> \<open>53 significant bits; below \<open>2 ^ - 1022\<close> the spacing stays \<open>2 ^ - 1074\<close>\<close>
  "float_round x =
     (if x = 0 then 0
      else let e = max (floor_log2 \<bar>x\<bar> - 52) (- 1074)
           in of_int (round_half_even (x / pow2 e)) * pow2 e)"

definition fadd :: "rat \<Rightarrow> rat \<Rightarrow> rat" where
  "fadd x y = float_round (x + y)"

definition fmul :: "rat \<Rightarrow> rat \<Rightarrow> rat" where
  "fmul x y = float_round (x * y)"

definition float_of_int :: "int \<Rightarrow> rat" where
  \<comment> \<open>the conversion Python applies to the \<open>int\<close> operand of a mixed operation\<close>
  "float_of_int n = float_round (of_int n)"

definition float_literal :: "rat \<Rightarrow> rat" where
  \<comment> \<open>a decimal literal of the source denotes the nearest binary64 value\<close>
  "float_literal d = float_round d"

fun sum_from :: "rat \<Rightarrow> rat list \<Rightarrow> rat" where
  "sum_from acc [] = acc"
| "sum_from acc (x # xs) = sum_from (fadd acc x) xs"

definition py_sum :: "rat list \<Rightarrow> rat" where
  \<comment> \<open>the built-in \<open>sum\<close>: starts from the integer 0 and adds from left to right, one
      rounded addition per element\<close>
  "py_sum xs = sum_from 0 xs"

subsection \<open>Python string formatting\<close>

definition digit_char :: "int \<Rightarrow> char" where
  "digit_char d = ''0123456789'' ! nat (d mod 10)"

function str_digits :: "int \<Rightarrow> string" where
  \<comment> \<open>the decimal digits of a non-negative integer\<close>
  "str_digits n =
     (if n < 10 then [digit_char n] else str_digits (n div 10) @ [digit_char (n mod 10)])"
  by pat_completeness auto
termination
  by (relation "measure nat") auto

declare str_digits.simps [simp del]

definition str_int :: "int \<Rightarrow> string" where
  "str_int i = (if i < 0 then ''-'' @ str_digits (- i) else str_digits i)"

definition format_2f :: "rat \<Rightarrow> string" where
  \<comment> \<open>the format specification \<open>.2f\<close>: the exact value rounded to two decimals, ties to even\<close>
  "format_2f x =
     (let n = round_half_even (\<bar>x\<bar> * 100)
      in (if x < 0 then ''-'' else '''') @ str_digits (n div 100) @ ''.''
         @ [digit_char (n div 10), digit_char n])"

fun join :: "string \<Rightarrow> string list \<Rightarrow> string" where
  "join sep [] = ''''"
| "join sep [x] = x"
| "join sep (x # y # ys) = x @ sep @ join sep (y # ys)"

subsection \<open>Order state\<close>

datatype OrderStep =
  Greeting | Order_Collection | Order_Type | Delivery_Address | Order_Summary | Payment

datatype OrderType = Pickup | Delivery

fun str_order_type :: "OrderType \<Rightarrow> string" where
  "str_order_type Pickup = ''pickup''"
| "str_order_type Delivery = ''delivery''"

record order_item =
  name :: string
  size :: string
  quantity :: int
  extras :: "string list"
  price :: rat

datatype message = HumanMessage string | AIMessage string | ToolMessage string string

record OrderState =
  messages :: "message list"
  current_step :: "OrderStep option"
  order_items :: "order_item list option"
  order_type :: "OrderType option"
  delivery_address :: "string option"
  order_total :: "rat option"
  payment_confirmed :: "bool option"

definition get :: "'a option \<Rightarrow> 'a \<Rightarrow> 'a" where
  \<comment> \<open>\<open>state.get(key, default)\<close>\<close>
  "get v d = (case v of None \<Rightarrow> d | Some x \<Rightarrow> x)"

subsection \<open>Commands\<close>

text \<open>
  A tool returns \<open>Command(update={...})\<close>. A key that the dictionary does not have is
  \<open>None\<close> here. The framework appends the messages of the update to the state's
  messages and overwrites every other key that the update has.
\<close>

record Command =
  upd_messages :: "message list"
  upd_current_step :: "OrderStep option"
  upd_order_items :: "order_item list option"
  upd_order_type :: "OrderType option"
  upd_delivery_address :: "string option"
  upd_order_total :: "rat option"
  upd_payment_confirmed :: "bool option"

definition only_message :: "message \<Rightarrow> Command" where
  "only_message m =
     \<lparr>upd_messages = [m], upd_current_step = None, upd_order_items = None,
      upd_order_type = None, upd_delivery_address = None, upd_order_total = None,
      upd_payment_confirmed = None\<rparr>"

definition overwrite :: "'a option \<Rightarrow> 'a option \<Rightarrow> 'a option" where
  "overwrite new old = (case new of None \<Rightarrow> old | Some v \<Rightarrow> Some v)"

definition apply_update :: "Command \<Rightarrow> OrderState \<Rightarrow> OrderState" where
  "apply_update c s =
     \<lparr>messages = messages s @ upd_messages c,
      current_step = overwrite (upd_current_step c) (current_step s),
      order_items = overwrite (upd_order_items c) (order_items s),
      order_type = overwrite (upd_order_type c) (order_type s),
      delivery_address = overwrite (upd_delivery_address c) (delivery_address s),
      order_total = overwrite (upd_order_total c) (order_total s),
      payment_confirmed = overwrite (upd_payment_confirmed c) (payment_confirmed s)\<rparr>"

subsection \<open>Tools\<close>

text \<open>Every tool takes the \<open>tool_call_id\<close> and the state of its \<open>ToolRuntime\<close>.\<close>

definition start_order :: "string \<Rightarrow> OrderState \<Rightarrow> Command" where
  "start_order tool_call_id s =
     (only_message (ToolMessage ''Ready to take order. Order collection started.'' tool_call_id))
       \<lparr>upd_current_step := Some Order_Collection,
        upd_order_items := Some [],
        upd_order_total := Some (float_literal 0)\<rparr>"

definition line_total :: "order_item \<Rightarrow> rat" where
  \<comment> \<open>\<open>item["price"] * item["quantity"]\<close>\<close>
  "line_total item = fmul (price item) (float_of_int (quantity item))"

definition add_item ::
  "string \<Rightarrow> string \<Rightarrow> int \<Rightarrow> string list \<Rightarrow> rat \<Rightarrow> string \<Rightarrow> OrderState \<Rightarrow> Command" where
  "add_item item_name item_size item_quantity item_extras item_price tool_call_id s =
     (let current_items = get (order_items s) [];
          current_total = get (order_total s) (float_literal 0);
          new_item = \<lparr>name = item_name, size = item_size, quantity = item_quantity,
                      extras = item_extras, price = item_price\<rparr>;
          updated_items = current_items @ [new_item];
          updated_total = fadd current_total (fmul item_price (float_of_int item_quantity));
          extras_str = (if item_extras \<noteq> [] then '' with '' @ join '', '' item_extras else '''')
      in (only_message (ToolMessage
            (''Added: '' @ str_int item_quantity @ ''x '' @ item_size @ '' '' @ item_name
               @ extras_str @ '' ($'' @ format_2f item_price @ '' each). Running total: $''
               @ format_2f updated_total)
            tool_call_id))
           \<lparr>upd_order_items := Some updated_items,
            upd_order_total := Some updated_total\<rparr>)"

definition remove_item :: "int \<Rightarrow> string \<Rightarrow> OrderState \<Rightarrow> Command" where
  "remove_item item_index tool_call_id s =
     (let current_items = get (order_items s) []
      in if item_index < 1 \<or> int (length current_items) < item_index
         then only_message (ToolMessage
                (''Invalid item number. Order has '' @ str_int (int (length current_items))
                   @ '' items.'')
                tool_call_id)
         else
           let removed_item = current_items ! nat (item_index - 1);
               updated_items = take (nat (item_index - 1)) current_items
                                 @ drop (nat item_index) current_items;
               updated_total = py_sum (map line_total updated_items)
           in (only_message (ToolMessage
                 (''Removed: '' @ name removed_item @ ''. New total: $''
                    @ format_2f updated_total)
                 tool_call_id))
                \<lparr>upd_order_items := Some updated_items,
                 upd_order_total := Some updated_total\<rparr>)"

definition finish_order_collection :: "string \<Rightarrow> OrderState \<Rightarrow> Command" where
  "finish_order_collection tool_call_id s =
     (only_message (ToolMessage
        ''Order collection complete. Now asking about pickup or delivery.'' tool_call_id))
       \<lparr>upd_current_step := Some Order_Type\<rparr>"

definition set_order_type :: "OrderType \<Rightarrow> string \<Rightarrow> OrderState \<Rightarrow> Command" where
  "set_order_type ot tool_call_id s =
     (let next_step = (if ot = Delivery then Delivery_Address else Order_Summary)
      in (only_message (ToolMessage (''Order type set to: '' @ str_order_type ot) tool_call_id))
           \<lparr>upd_order_type := Some ot,
            upd_current_step := Some next_step\<rparr>)"

definition set_delivery_address :: "string \<Rightarrow> string \<Rightarrow> OrderState \<Rightarrow> Command" where
  "set_delivery_address address tool_call_id s =
     (only_message (ToolMessage (''Delivery address recorded: '' @ address) tool_call_id))
       \<lparr>upd_delivery_address := Some address,
        upd_current_step := Some Order_Summary\<rparr>"

definition confirm_order :: "string \<Rightarrow> OrderState \<Rightarrow> Command" where
  "confirm_order tool_call_id s =
     (only_message (ToolMessage ''Order confirmed! Moving to payment.'' tool_call_id))
       \<lparr>upd_current_step := Some Payment\<rparr>"

definition add_more_items :: "string \<Rightarrow> OrderState \<Rightarrow> Command" where
  "add_more_items tool_call_id s =
     (only_message (ToolMessage ''Going back to add more items.'' tool_call_id))
       \<lparr>upd_current_step := Some Order_Collection\<rparr>"

definition payment_tax :: "rat \<Rightarrow> rat" where
  \<comment> \<open>\<open>tax = order_total * 0.085\<close>\<close>
  "payment_tax subtotal = fmul subtotal (float_literal (85 / 1000))"

definition payment_final_total :: "rat \<Rightarrow> rat" where
  \<comment> \<open>\<open>final_total = order_total + tax\<close>\<close>
  "payment_final_total subtotal = fadd subtotal (payment_tax subtotal)"

definition process_payment :: "string \<Rightarrow> string \<Rightarrow> OrderState \<Rightarrow> Command" where
  "process_payment payment_method tool_call_id s =
     (let subtotal = get (order_total s) (float_literal 0);
          \<comment> \<open>the source also reads \<open>order_type\<close> (default \<open>pickup\<close>) and does not use it\<close>
          tax = payment_tax subtotal;
          final_total = payment_final_total subtotal
      in (only_message (ToolMessage
            (''Payment processed via '' @ payment_method @ ''. Subtotal: $'' @ format_2f subtotal
               @ '', Tax: $'' @ format_2f tax @ '', Total: $'' @ format_2f final_total
               @ ''. Order placed successfully!'')
            tool_call_id))
           \<lparr>upd_payment_confirmed := Some True\<rparr>)"

definition go_back_to_order :: "string \<Rightarrow> OrderState \<Rightarrow> Command" where
  "go_back_to_order tool_call_id s =
     (only_message (ToolMessage ''Going back to order collection.'' tool_call_id))
       \<lparr>upd_current_step := Some Order_Collection\<rparr>"

subsection \<open>The first state of a conversation\<close>

definition initial_state :: OrderState where
  \<comment> \<open>\<open>agent.invoke({"messages": [HumanMessage(...)]}, config)\<close>: no other key is set\<close>
  "initial_state =
     \<lparr>messages = [HumanMessage ''Hi, I'd like to order some pizza''],
      current_step = None, order_items = None, order_type = None,
      delivery_address = None, order_total = None, payment_confirmed = None\<rparr>"

subsection \<open>Calling tools\<close>

text \<open>
  The agent is created with all ten tools. When the model calls one, the framework runs
  it on the current state and applies the returned command.
\<close>

datatype tool =
  Tool_start_order | Tool_add_item | Tool_remove_item | Tool_finish_order_collection
  | Tool_set_order_type | Tool_set_delivery_address | Tool_confirm_order
  | Tool_add_more_items | Tool_process_payment | Tool_go_back_to_order

datatype tool_call =
  Call_start_order
  | Call_add_item string string int "string list" rat
  | Call_remove_item int
  | Call_finish_order_collection
  | Call_set_order_type OrderType
  | Call_set_delivery_address string
  | Call_confirm_order
  | Call_add_more_items
  | Call_process_payment string
  | Call_go_back_to_order

fun called_tool :: "tool_call \<Rightarrow> tool" where
  "called_tool Call_start_order = Tool_start_order"
| "called_tool (Call_add_item n sz q ex p) = Tool_add_item"
| "called_tool (Call_remove_item i) = Tool_remove_item"
| "called_tool Call_finish_order_collection = Tool_finish_order_collection"
| "called_tool (Call_set_order_type ot) = Tool_set_order_type"
| "called_tool (Call_set_delivery_address a) = Tool_set_delivery_address"
| "called_tool Call_confirm_order = Tool_confirm_order"
| "called_tool Call_add_more_items = Tool_add_more_items"
| "called_tool (Call_process_payment m) = Tool_process_payment"
| "called_tool Call_go_back_to_order = Tool_go_back_to_order"

fun invoke :: "tool_call \<Rightarrow> string \<Rightarrow> OrderState \<Rightarrow> Command" where
  "invoke Call_start_order = start_order"
| "invoke (Call_add_item n sz q ex p) = add_item n sz q ex p"
| "invoke (Call_remove_item i) = remove_item i"
| "invoke Call_finish_order_collection = finish_order_collection"
| "invoke (Call_set_order_type ot) = set_order_type ot"
| "invoke (Call_set_delivery_address a) = set_delivery_address a"
| "invoke Call_confirm_order = confirm_order"
| "invoke Call_add_more_items = add_more_items"
| "invoke (Call_process_payment m) = process_payment m"
| "invoke Call_go_back_to_order = go_back_to_order"

definition run_tool :: "tool_call \<Rightarrow> string \<Rightarrow> OrderState \<Rightarrow> OrderState" where
  "run_tool c tool_call_id s = apply_update (invoke c tool_call_id s) s"

fun run_calls :: "(tool_call \<times> string) list \<Rightarrow> OrderState \<Rightarrow> OrderState" where
  "run_calls [] s = s"
| "run_calls ((c, tool_call_id) # cs) s = run_calls cs (run_tool c tool_call_id s)"


subsection \<open>Prompts\<close>

text \<open>
  The prompts as the module holds them once it is loaded: the two f-strings have the
  menu inserted and their doubled braces turned into single ones.
\<close>

definition MENU :: string where
  "MENU =
     ''\<newline>'' @
     [CHR 0xF0, CHR 0x9F, CHR 0x8D, CHR 0x95] @ '' **PIZZAS** (Large / Medium / Small):\<newline>'' @
     ''   '' @ [CHR 0xE2, CHR 0x80, CHR 0xA2] @ '' Pepperoni Pizza: $12.95 / $10.00 / $7.00\<newline>'' @
     ''   '' @ [CHR 0xE2, CHR 0x80, CHR 0xA2] @ '' Cheese Pizza: $10.95 / $9.25 / $6.50\<newline>'' @
     ''   '' @ [CHR 0xE2, CHR 0x80, CHR 0xA2] @ '' Eggplant Pizza: $11.95 / $9.75 / $6.75\<newline>'' @
     ''\<newline>'' @
     [CHR 0xF0, CHR 0x9F, CHR 0x8D, CHR 0x9F] @ '' **SIDES**:\<newline>'' @
     ''   '' @ [CHR 0xE2, CHR 0x80, CHR 0xA2] @ '' Fries: $4.50 (Large) / $3.50 (Regular)\<newline>'' @
     ''   '' @ [CHR 0xE2, CHR 0x80, CHR 0xA2] @ '' Greek Salad: $7.25\<newline>'' @
     ''\<newline>'' @
     [CHR 0xF0, CHR 0x9F, CHR 0xA7, CHR 0x80] @ '' **TOPPINGS** (Extra):\<newline>'' @
     ''   '' @ [CHR 0xE2, CHR 0x80, CHR 0xA2] @ '' Extra Cheese: $2.00\<newline>'' @
     ''   '' @ [CHR 0xE2, CHR 0x80, CHR 0xA2] @ '' Mushrooms: $1.50\<newline>'' @
     ''   '' @ [CHR 0xE2, CHR 0x80, CHR 0xA2] @ '' Sausage: $3.00\<newline>'' @
     ''   '' @ [CHR 0xE2, CHR 0x80, CHR 0xA2] @ '' Canadian Bacon: $3.50\<newline>'' @
     ''   '' @ [CHR 0xE2, CHR 0x80, CHR 0xA2] @ '' AI Sauce: $1.50\<newline>'' @
     ''   '' @ [CHR 0xE2, CHR 0x80, CHR 0xA2] @ '' Peppers: $1.00\<newline>'' @
     ''\<newline>'' @
     [CHR 0xF0, CHR 0x9F, CHR 0xA5, CHR 0xA4] @ '' **DRINKS** (Large / Medium / Small):\<newline>'' @
     ''   '' @ [CHR 0xE2, CHR 0x80, CHR 0xA2] @ '' Coke: $3.00 / $2.00 / $1.00\<newline>'' @
     ''   '' @ [CHR 0xE2, CHR 0x80, CHR 0xA2] @ '' Sprite: $3.00 / $2.00 / $1.00\<newline>'' @
     ''   '' @ [CHR 0xE2, CHR 0x80, CHR 0xA2] @ '' Bottled Water: $5.00\<newline>''"

definition GREETING_PROMPT :: string where
  "GREETING_PROMPT =
     ''You are OrderBot '' @ [CHR 0xF0, CHR 0x9F, CHR 0x8D, CHR 0x95] @ '', a friendly automated ordering assistant for Mario's Pizza.\<newline>'' @
     ''\<newline>'' @
     ''CURRENT STEP: Greeting\<newline>'' @
     ''\<newline>'' @
     ''Your job is to:\<newline>'' @
     ''1. Give a warm, friendly greeting\<newline>'' @
     ''2. Let the customer know you're here to help them order\<newline>'' @
     ''3. Show them the menu\<newline>'' @
     ''4. Use the start_order tool when they're ready to order\<newline>'' @
     ''\<newline>'' @
     ''Be conversational, friendly, and upbeat! Use emojis occasionally.\<newline>'' @
     ''\<newline>'' @
     ''Here's the menu to share:\<newline>'' @
     MENU @
     ''\<newline>'' @
     ''\<newline>'' @
     ''After greeting and showing the menu, wait for the customer to indicate they want to order, then use start_order.''"

definition ORDER_COLLECTION_PROMPT :: string where
  "ORDER_COLLECTION_PROMPT =
     ''You are OrderBot '' @ [CHR 0xF0, CHR 0x9F, CHR 0x8D, CHR 0x95] @ '', a friendly pizza ordering assistant.\<newline>'' @
     ''\<newline>'' @
     ''CURRENT STEP: Order Collection\<newline>'' @
     ''CURRENT ORDER: {order_items}\<newline>'' @
     ''CURRENT TOTAL: ${order_total:.2f}\<newline>'' @
     ''\<newline>'' @
     ''At this step, you need to:\<newline>'' @
     ''1. Help the customer choose items from the menu\<newline>'' @
     ''2. For pizzas: ALWAYS clarify the size (small, medium, large)\<newline>'' @
     ''3. For pizzas: Ask about extra toppings\<newline>'' @
     ''4. For fries: Ask if they want large or regular\<newline>'' @
     ''5. For drinks (except bottled water): Ask for size (small, medium, large)\<newline>'' @
     ''6. Use add_item to add each item with correct price\<newline>'' @
     ''7. When they're done ordering, use finish_order_collection\<newline>'' @
     ''\<newline>'' @
     ''PRICING REFERENCE:\<newline>'' @
     MENU @
     ''\<newline>'' @
     ''\<newline>'' @
     ''IMPORTANT: \<newline>'' @
     ''- Calculate prices correctly including extras\<newline>'' @
     ''- Be conversational and friendly\<newline>'' @
     ''- Confirm each item as you add it\<newline>'' @
     ''- If customer says they're done ordering or that's all, use finish_order_collection''"

definition ORDER_TYPE_PROMPT :: string where
  "ORDER_TYPE_PROMPT =
     ''You are OrderBot '' @ [CHR 0xF0, CHR 0x9F, CHR 0x8D, CHR 0x95] @ '', a friendly pizza ordering assistant.\<newline>'' @
     ''\<newline>'' @
     ''CURRENT STEP: Pickup or Delivery\<newline>'' @
     ''CURRENT ORDER: {order_items}\<newline>'' @
     ''ORDER TOTAL: ${order_total:.2f}\<newline>'' @
     ''\<newline>'' @
     ''At this step, you need to:\<newline>'' @
     ''1. Ask if this is for pickup or delivery\<newline>'' @
     ''2. Use set_order_type to record their answer\<newline>'' @
     ''\<newline>'' @
     ''Keep it brief and friendly!''"

definition DELIVERY_ADDRESS_PROMPT :: string where
  "DELIVERY_ADDRESS_PROMPT =
     ''You are OrderBot '' @ [CHR 0xF0, CHR 0x9F, CHR 0x8D, CHR 0x95] @ '', a friendly pizza ordering assistant.\<newline>'' @
     ''\<newline>'' @
     ''CURRENT STEP: Delivery Address\<newline>'' @
     ''ORDER TYPE: Delivery '' @ [CHR 0xF0, CHR 0x9F, CHR 0x9A, CHR 0x97] @ ''\<newline>'' @
     ''\<newline>'' @
     ''At this step, you need to:\<newline>'' @
     ''1. Ask for their complete delivery address\<newline>'' @
     ''2. Get street address, city, and any apartment/unit number\<newline>'' @
     ''3. Use set_delivery_address to record the address\<newline>'' @
     ''\<newline>'' @
     ''Make sure to get a complete, deliverable address!''"

definition ORDER_SUMMARY_PROMPT :: string where
  "ORDER_SUMMARY_PROMPT =
     ''You are OrderBot '' @ [CHR 0xF0, CHR 0x9F, CHR 0x8D, CHR 0x95] @ '', a friendly pizza ordering assistant.\<newline>'' @
     ''\<newline>'' @
     ''CURRENT STEP: Order Summary & Final Check\<newline>'' @
     ''CURRENT ORDER: {order_items}\<newline>'' @
     ''ORDER TOTAL: ${order_total:.2f}\<newline>'' @
     ''ORDER TYPE: {order_type}\<newline>'' @
     ''DELIVERY ADDRESS: {delivery_address}\<newline>'' @
     ''\<newline>'' @
     ''At this step, you need to:\<newline>'' @
     ''1. Summarize the complete order with all items and prices\<newline>'' @
     ''2. Show the subtotal (tax will be added at payment)\<newline>'' @
     ''3. Confirm the order type (pickup/delivery) and address if delivery\<newline>'' @
     ''4. Ask if they'd like to add anything else\<newline>'' @
     ''5. If they want to add more '' @ [CHR 0xE2, CHR 0x86, CHR 0x92] @ '' use add_more_items\<newline>'' @
     ''6. If order is complete '' @ [CHR 0xE2, CHR 0x86, CHR 0x92] @ '' use confirm_order\<newline>'' @
     ''\<newline>'' @
     ''Format the order summary nicely and make it easy to read!''"

definition PAYMENT_PROMPT :: string where
  "PAYMENT_PROMPT =
     ''You are OrderBot '' @ [CHR 0xF0, CHR 0x9F, CHR 0x8D, CHR 0x95] @ '', a friendly pizza ordering assistant.\<newline>'' @
     ''\<newline>'' @
     ''CURRENT STEP: Payment '' @ [CHR 0xF0, CHR 0x9F, CHR 0x92, CHR 0xB3] @ ''\<newline>'' @
     ''CURRENT ORDER: {order_items}\<newline>'' @
     ''ORDER TOTAL: ${order_total:.2f}\<newline>'' @
     ''ORDER TYPE: {order_type}\<newline>'' @
     ''DELIVERY ADDRESS: {delivery_address}\<newline>'' @
     ''\<newline>'' @
     ''At this step, you need to:\<newline>'' @
     ''1. Show the final total with tax (8.5%)\<newline>'' @
     ''2. Ask how they'd like to pay (credit card, debit, cash)\<newline>'' @
     ''3. Use process_payment to complete the order\<newline>'' @
     ''\<newline>'' @
     ''Note: If they want to change their order, use go_back_to_order.\<newline>'' @
     ''\<newline>'' @
     ''After payment, thank them and:\<newline>'' @
     ''- For pickup: Tell them the order will be ready in 15-20 minutes\<newline>'' @
     ''- For delivery: Tell them delivery will be 30-45 minutes''"

subsection \<open>Step configuration\<close>

record step_config =
  prompt :: string
  tools :: "tool list"
  requires :: "string list"

fun STEP_CONFIG :: "OrderStep \<Rightarrow> step_config" where
  "STEP_CONFIG Greeting =
     \<lparr>prompt = GREETING_PROMPT, tools = [Tool_start_order], requires = []\<rparr>"
| "STEP_CONFIG Order_Collection =
     \<lparr>prompt = ORDER_COLLECTION_PROMPT,
      tools = [Tool_add_item, Tool_remove_item, Tool_finish_order_collection],
      requires = []\<rparr>"
| "STEP_CONFIG Order_Type =
     \<lparr>prompt = ORDER_TYPE_PROMPT, tools = [Tool_set_order_type, Tool_go_back_to_order],
      requires = [''order_items'']\<rparr>"
| "STEP_CONFIG Delivery_Address =
     \<lparr>prompt = DELIVERY_ADDRESS_PROMPT,
      tools = [Tool_set_delivery_address, Tool_go_back_to_order],
      requires = [''order_type'']\<rparr>"
| "STEP_CONFIG Order_Summary =
     \<lparr>prompt = ORDER_SUMMARY_PROMPT, tools = [Tool_confirm_order, Tool_add_more_items],
      requires = [''order_items'', ''order_type'']\<rparr>"
| "STEP_CONFIG Payment =
     \<lparr>prompt = PAYMENT_PROMPT, tools = [Tool_process_payment, Tool_go_back_to_order],
      requires = [''order_items'', ''order_type'']\<rparr>"

subsection \<open>\<open>str.format\<close>\<close>

text \<open>
  \<open>str.format\<close> reads the template from left to right: \<open>{{\<close> and \<open>}}\<close> stand for one
  brace, \<open>{name}\<close> and \<open>{name:spec}\<close> are replaced by the formatted value of the keyword
  argument \<open>name\<close>, and a brace alone is a \<open>ValueError\<close>. Of the format specifications,
  the empty one (on a string or a list) and \<open>.2f\<close> (on a number) are modelled, which are
  the ones the prompts use; conversions (\<open>!r\<close>), nested fields, attribute and index
  lookups and every other specification give \<open>Unsupported\<close>. The text of a list of
  items, Python's \<open>str\<close> of a list of dictionaries, is a parameter \<open>str_items\<close>.
\<close>

datatype py_error = ValueError | KeyError | IndexError | TypeError | Unsupported

datatype py_value = Py_items "order_item list" | Py_number rat | Py_str string

fun format_value :: "(order_item list \<Rightarrow> string) \<Rightarrow> py_value \<Rightarrow> string \<Rightarrow> py_error + string" where
  "format_value str_items (Py_items xs) spec =
     (if spec = [] then Inr (str_items xs) else Inl TypeError)"
| "format_value str_items (Py_str v) spec =
     (if spec = [] then Inr v else if spec = ''.2f'' then Inl ValueError else Inl Unsupported)"
| "format_value str_items (Py_number x) spec =
     (if spec = ''.2f'' then Inr (format_2f x) else Inl Unsupported)"

definition get_field ::
  "(order_item list \<Rightarrow> string) \<Rightarrow> (string \<times> py_value) list \<Rightarrow> string \<Rightarrow> string
     \<Rightarrow> py_error + string" where
  "get_field str_items kwargs field_name spec =
     (if field_name = [] \<or> list_all (\<lambda>c. c \<in> set ''0123456789'') field_name
      then Inl IndexError
      else if list_ex (\<lambda>c. c \<in> set ''.[]'') field_name then Inl Unsupported
      else case map_of kwargs field_name of
             None \<Rightarrow> Inl KeyError
           | Some v \<Rightarrow> format_value str_items v spec)"

definition then_text :: "py_error + string \<Rightarrow> py_error + string \<Rightarrow> py_error + string" where
  \<comment> \<open>the text so far, followed by the rest; the first error wins\<close>
  "then_text a b =
     (case a of Inl e \<Rightarrow> Inl e
      | Inr x \<Rightarrow> (case b of Inl e \<Rightarrow> Inl e | Inr y \<Rightarrow> Inr (x @ y)))"

datatype scan = In_text | After_open | After_close | In_name string | In_spec string string

fun scan_format ::
  "(order_item list \<Rightarrow> string) \<Rightarrow> (string \<times> py_value) list \<Rightarrow> scan \<Rightarrow> string
     \<Rightarrow> py_error + string" where
  "scan_format f kw In_text [] = Inr []"
| "scan_format f kw After_open [] = Inl ValueError"
| "scan_format f kw After_close [] = Inl ValueError"
| "scan_format f kw (In_name n) [] = Inl ValueError"
| "scan_format f kw (In_spec n sp) [] = Inl ValueError"
| "scan_format f kw In_text (c # cs) =
     (if c = CHR ''{'' then scan_format f kw After_open cs
      else if c = CHR ''}'' then scan_format f kw After_close cs
      else then_text (Inr [c]) (scan_format f kw In_text cs))"
| "scan_format f kw After_open (c # cs) =
     (if c = CHR ''{'' then then_text (Inr ''{'') (scan_format f kw In_text cs)
      else if c = CHR ''}'' then then_text (get_field f kw [] []) (scan_format f kw In_text cs)
      else if c = CHR '':'' then scan_format f kw (In_spec [] []) cs
      else if c = CHR ''!'' then Inl Unsupported
      else scan_format f kw (In_name [c]) cs)"
| "scan_format f kw After_close (c # cs) =
     (if c = CHR ''}'' then then_text (Inr ''}'') (scan_format f kw In_text cs)
      else Inl ValueError)"
| "scan_format f kw (In_name n) (c # cs) =
     (if c = CHR ''}'' then then_text (get_field f kw n []) (scan_format f kw In_text cs)
      else if c = CHR '':'' then scan_format f kw (In_spec n []) cs
      else if c = CHR ''{'' then Inl ValueError
      else if c = CHR ''!'' then Inl Unsupported
      else scan_format f kw (In_name (n @ [c])) cs)"
| "scan_format f kw (In_spec n sp) (c # cs) =
     (if c = CHR ''}'' then then_text (get_field f kw n sp) (scan_format f kw In_text cs)
      else if c = CHR ''{'' then Inl Unsupported
      else scan_format f kw (In_spec n (sp @ [c])) cs)"

definition py_format ::
  "(order_item list \<Rightarrow> string) \<Rightarrow> string \<Rightarrow> (string \<times> py_value) list \<Rightarrow> py_error + string" where
  \<comment> \<open>\<open>template.format(**kwargs)\<close>\<close>
  "py_format str_items template kwargs = scan_format str_items kwargs In_text template"

subsection \<open>Middleware\<close>

record 'm ModelRequest =
  state :: OrderState
  system_prompt :: "string option"
  request_tools :: "tool list"
  model :: 'm

definition format_values :: "OrderState \<Rightarrow> (string \<times> py_value) list" where
  "format_values s =
     [(''order_items'', Py_items (get (order_items s) [])),
      (''order_total'', Py_number (get (order_total s) (float_literal 0))),
      (''order_type'',
         Py_str (case order_type s of None \<Rightarrow> ''not set'' | Some ot \<Rightarrow> str_order_type ot)),
      (''delivery_address'', Py_str (get (delivery_address s) ''N/A''))]"

definition apply_step_config ::
  "(order_item list \<Rightarrow> string) \<Rightarrow> 'm ModelRequest \<Rightarrow> ('m ModelRequest \<Rightarrow> 'r) \<Rightarrow> py_error + 'r" where
  "apply_step_config str_items request handler =
     (let step = get (current_step (state request)) Greeting;
          config = STEP_CONFIG step
      in case py_format str_items (prompt config) (format_values (state request)) of
           Inl e \<Rightarrow> Inl e
         | Inr text \<Rightarrow>
             Inr (handler (request\<lparr>system_prompt := Some text,
                                    request_tools := tools config\<rparr>)))"

subsection \<open>Filling placeholders, as a text replacement\<close>

text \<open>
  What the specification says of the Step Selector: every placeholder of the template is
  replaced by the value of the state. \<open>fill_placeholders\<close> replaces, from left to right,
  each occurrence of a placeholder by its text and keeps every other character.
\<close>

fun fill_from :: "(string \<times> string) list \<Rightarrow> nat \<Rightarrow> string \<Rightarrow> string" where
  "fill_from subst skip [] = []"
| "fill_from subst (Suc k) (c # cs) = fill_from subst k cs"
| "fill_from subst 0 (c # cs) =
     (if c = CHR ''{''
      then (case find (\<lambda>(p, v). take (length p) (c # cs) = p) subst of
              Some (p, v) \<Rightarrow> v @ fill_from subst (length p - 1) cs
            | None \<Rightarrow> c # fill_from subst 0 cs)
      else c # fill_from subst 0 cs)"

definition fill_placeholders ::
  "(order_item list \<Rightarrow> string) \<Rightarrow> OrderState \<Rightarrow> string \<Rightarrow> string" where
  "fill_placeholders str_items s template =
     fill_from
       [(''{order_items}'', str_items (get (order_items s) [])),
        (''{order_total:.2f}'', format_2f (get (order_total s) 0)),
        (''{order_type}'',
           (case order_type s of None \<Rightarrow> ''not set'' | Some ot \<Rightarrow> str_order_type ot)),
        (''{delivery_address}'', get (delivery_address s) ''N/A'')]
       0 template"

subsection \<open>The total that the items stand for\<close>


subsection \<open>An order of two items\<close>

definition two_item_order :: OrderState where
  "two_item_order =
     \<lparr>messages = [],
      current_step = Some Order_Collection,
      order_items = Some
        [\<lparr>name = ''Cheese Pizza'', size = ''medium'', quantity = 1, extras = [],
           price = 37 / 4\<rparr>,
         \<lparr>name = ''Coke'', size = ''small'', quantity = 2, extras = [], price = 1\<rparr>],
      order_type = None, delivery_address = None,
      order_total = Some (45 / 4), payment_confirmed = None\<rparr>"

subsection \<open>Templates that format as they are filled\<close>

text \<open>
  A piece of a template is well behaved when, in front of any text, \<open>str.format\<close> turns
  it into what \<open>fill_placeholders\<close> makes of it and goes on with the rest.
\<close>

definition chunk_ok :: "(order_item list \<Rightarrow> string) \<Rightarrow> OrderState \<Rightarrow> string \<Rightarrow> bool" where
  "chunk_ok f s t \<longleftrightarrow>
     (\<forall>rest. scan_format f (format_values s) In_text (t @ rest)
        = then_text (Inr (fill_placeholders f s t))
            (scan_format f (format_values s) In_text rest))
     \<and> (\<forall>rest. fill_placeholders f s (t @ rest)
          = fill_placeholders f s t @ fill_placeholders f s rest)"

section \<open>Properties\<close>

subsection \<open>Helper facts\<close>

lemma overwrite_simps [simp]:
  "overwrite None old = old"
  "overwrite (Some v) old = Some v"
  by (simp_all add: overwrite_def)

lemma get_simps [simp]:
  "get None d = d"
  "get (Some x) d = x"
  by (simp_all add: get_def)

lemma then_text_simps [simp]:
  "then_text (Inl e) b = Inl e"
  "then_text (Inr x) (Inl e) = Inl e"
  "then_text (Inr x) (Inr y) = Inr (x @ y)"
  by (simp_all add: then_text_def)

lemma float_round_zero [simp]: "float_round 0 = 0"
  by (simp add: float_round_def)

lemma float_literal_zero [simp]: "float_literal 0 = 0"
  by (simp add: float_literal_def)



lemma py_sum_Nil [simp]: "py_sum [] = 0"
  by (simp add: py_sum_def)










lemma format_2f_zero: "format_2f 0 = ''0.00''"
  by code_simp

lemma payment_tax_zero: "payment_tax 0 = 0"
  by (simp add: payment_tax_def fmul_def)

lemma payment_final_total_zero: "payment_final_total 0 = 0"
  by (simp add: payment_final_total_def payment_tax_zero fadd_def)


lemma run_process_payment:
  "run_tool (Call_process_payment m) tid s =
     s\<lparr>messages := messages s @
         [ToolMessage
            (''Payment processed via '' @ m @ ''. Subtotal: $''
               @ format_2f (get (order_total s) 0)
               @ '', Tax: $'' @ format_2f (payment_tax (get (order_total s) 0))
               @ '', Total: $'' @ format_2f (payment_final_total (get (order_total s) 0))
               @ ''. Order placed successfully!'')
            tid],
       payment_confirmed := Some True\<rparr>"
  by (simp add: run_tool_def process_payment_def apply_update_def only_message_def Let_def)

lemma run_remove_item_invalid:
  assumes "i < 1 \<or> int (length (get (order_items s) [])) < i"
  shows "run_tool (Call_remove_item i) tid s =
           s\<lparr>messages := messages s @
               [ToolMessage (''Invalid item number. Order has ''
                   @ str_int (int (length (get (order_items s) []))) @ '' items.'') tid]\<rparr>"
  using assms
  by (auto simp add: run_tool_def remove_item_def apply_update_def only_message_def Let_def)

lemma run_remove_item_valid:
  assumes "1 \<le> i" and "i \<le> int (length (get (order_items s) []))"
  shows "run_tool (Call_remove_item i) tid s =
           s\<lparr>messages := messages s @
               [ToolMessage (''Removed: '' @ name (get (order_items s) [] ! nat (i - 1))
                   @ ''. New total: $''
                   @ format_2f (py_sum (map line_total
                       (take (nat (i - 1)) (get (order_items s) [])
                          @ drop (nat i) (get (order_items s) [])))))
                  tid],
             order_items := Some (take (nat (i - 1)) (get (order_items s) [])
                                    @ drop (nat i) (get (order_items s) [])),
             order_total := Some (py_sum (map line_total
                       (take (nat (i - 1)) (get (order_items s) [])
                          @ drop (nat i) (get (order_items s) []))))\<rparr>"
  using assms
  by (auto simp add: run_tool_def remove_item_def apply_update_def only_message_def Let_def)

lemma nth_without:
  assumes "k < length xs"
  shows "length (take k xs @ drop (Suc k) xs) = length xs - 1"
    and "j < k \<Longrightarrow> (take k xs @ drop (Suc k) xs) ! j = xs ! j"
    and "k \<le> j \<Longrightarrow> Suc j < length xs \<Longrightarrow> (take k xs @ drop (Suc k) xs) ! j = xs ! Suc j"
  using assms by (auto simp add: nth_append min_def)

lemma run_add_item:
  "run_tool (Call_add_item n sz q ex p) tid s =
     s\<lparr>messages := messages s @
         [ToolMessage
            (''Added: '' @ str_int q @ ''x '' @ sz @ '' '' @ n
               @ (if ex \<noteq> [] then '' with '' @ join '', '' ex else [])
               @ '' ($'' @ format_2f p @ '' each). Running total: $''
               @ format_2f (fadd (get (order_total s) 0) (fmul p (float_of_int q))))
            tid],
       order_items := Some (get (order_items s) []
                      @ [\<lparr>name = n, size = sz, quantity = q, extras = ex, price = p\<rparr>]),
       order_total := Some (fadd (get (order_total s) 0) (fmul p (float_of_int q)))\<rparr>"
  by (simp add: run_tool_def add_item_def apply_update_def only_message_def Let_def)

lemma then_text_assoc:
  "then_text (Inr xs) (then_text (Inr ys) r) = then_text (Inr (xs @ ys)) r"
  by (cases r) simp_all

lemma chunk_ok_append:
  assumes "chunk_ok f s xs" and "chunk_ok f s ys"
  shows "chunk_ok f s (xs @ ys)"
  using assms by (simp add: chunk_ok_def then_text_assoc)

lemma chunk_ok_format:
  assumes "chunk_ok f s t"
  shows "py_format f t (format_values s) = Inr (fill_placeholders f s t)"
proof -
  have "scan_format f (format_values s) In_text (t @ [])
          = then_text (Inr (fill_placeholders f s t)) (scan_format f (format_values s) In_text [])"
    using assms unfolding chunk_ok_def by blast
  then show ?thesis
    by (simp add: py_format_def)
qed

lemma chunk_ok_MENU: "chunk_ok f s MENU"
  unfolding MENU_def
  by (intro chunk_ok_append)
     (simp_all add: chunk_ok_def fill_placeholders_def format_values_def get_field_def
        then_text_assoc)

lemma format_greeting:
  "py_format f GREETING_PROMPT (format_values s) = Inr (fill_placeholders f s GREETING_PROMPT)"
  unfolding GREETING_PROMPT_def
  by (intro chunk_ok_format chunk_ok_append chunk_ok_MENU)
     (simp_all add: chunk_ok_def fill_placeholders_def format_values_def get_field_def
        then_text_assoc)

lemma format_order_collection:
  "py_format f ORDER_COLLECTION_PROMPT (format_values s)
     = Inr (fill_placeholders f s ORDER_COLLECTION_PROMPT)"
  unfolding ORDER_COLLECTION_PROMPT_def
  by (intro chunk_ok_format chunk_ok_append chunk_ok_MENU)
     (simp_all add: chunk_ok_def fill_placeholders_def format_values_def get_field_def
        then_text_assoc)

lemma format_order_type:
  "py_format f ORDER_TYPE_PROMPT (format_values s) = Inr (fill_placeholders f s ORDER_TYPE_PROMPT)"
  unfolding ORDER_TYPE_PROMPT_def
  by (intro chunk_ok_format chunk_ok_append)
     (simp_all add: chunk_ok_def fill_placeholders_def format_values_def get_field_def
        then_text_assoc)

lemma format_delivery_address:
  "py_format f DELIVERY_ADDRESS_PROMPT (format_values s)
     = Inr (fill_placeholders f s DELIVERY_ADDRESS_PROMPT)"
  unfolding DELIVERY_ADDRESS_PROMPT_def
  by (intro chunk_ok_format chunk_ok_append)
     (simp_all add: chunk_ok_def fill_placeholders_def format_values_def get_field_def
        then_text_assoc)

lemma format_order_summary:
  "py_format f ORDER_SUMMARY_PROMPT (format_values s)
     = Inr (fill_placeholders f s ORDER_SUMMARY_PROMPT)"
  unfolding ORDER_SUMMARY_PROMPT_def
  by (intro chunk_ok_format chunk_ok_append)
     (simp_all add: chunk_ok_def fill_placeholders_def format_values_def get_field_def
        then_text_assoc)

lemma format_payment:
  "py_format f PAYMENT_PROMPT (format_values s) = Inr (fill_placeholders f s PAYMENT_PROMPT)"
  unfolding PAYMENT_PROMPT_def
  by (intro chunk_ok_format chunk_ok_append)
     (simp_all add: chunk_ok_def fill_placeholders_def format_values_def get_field_def
        then_text_assoc)

lemma format_step_prompt:
  "py_format f (prompt (STEP_CONFIG step)) (format_values s)
     = Inr (fill_placeholders f s (prompt (STEP_CONFIG step)))"
  by (cases step)
     (simp_all add: format_greeting format_order_collection format_order_type
        format_delivery_address format_order_summary format_payment)

lemma invoke_ignores_step:
  "invoke c tid (s\<lparr>current_step := st\<rparr>) = invoke c tid s"
  by (cases c)
     (simp_all add: start_order_def add_item_def remove_item_def finish_order_collection_def
        set_order_type_def set_delivery_address_def confirm_order_def add_more_items_def
        process_payment_def go_back_to_order_def)

subsection \<open>Pickup and delivery\<close>

text \<open>
  C5. At step \<open>order_type\<close>, \<open>set_order_type("pickup")\<close> records \<open>pickup\<close> and moves to
  \<open>order_summary\<close>; \<open>set_order_type("delivery")\<close> records \<open>delivery\<close> and moves to
  \<open>delivery_address\<close>. The two destinations are never swapped.
\<close>

theorem set_order_type_destinations:
  assumes "current_step s = Some Order_Type"
  shows "order_type (apply_update (set_order_type Pickup tid s) s) = Some Pickup
       \<and> current_step (apply_update (set_order_type Pickup tid s) s) = Some Order_Summary
       \<and> order_type (apply_update (set_order_type Delivery tid s) s) = Some Delivery
       \<and> current_step (apply_update (set_order_type Delivery tid s) s) = Some Delivery_Address"
  by (simp add: set_order_type_def apply_update_def only_message_def)

theorem set_order_type_destinations_witness:
  "current_step (initial_state\<lparr>current_step := Some Order_Type\<rparr>) = Some Order_Type
   \<and> order_type (apply_update (set_order_type Pickup ''call_1''
         (initial_state\<lparr>current_step := Some Order_Type\<rparr>))
         (initial_state\<lparr>current_step := Some Order_Type\<rparr>)) = Some Pickup
   \<and> current_step (apply_update (set_order_type Pickup ''call_1''
         (initial_state\<lparr>current_step := Some Order_Type\<rparr>))
         (initial_state\<lparr>current_step := Some Order_Type\<rparr>)) = Some Order_Summary
   \<and> current_step (apply_update (set_order_type Delivery ''call_1''
         (initial_state\<lparr>current_step := Some Order_Type\<rparr>))
         (initial_state\<lparr>current_step := Some Order_Type\<rparr>)) = Some Delivery_Address"
proof -
  have h: "current_step (initial_state\<lparr>current_step := Some Order_Type\<rparr>) = Some Order_Type"
    by simp
  show ?thesis
    using h set_order_type_destinations [OF h, of "''call_1''"] by simp
qed

subsection \<open>Going back from payment\<close>

text \<open>
  C6. At step \<open>payment\<close>, \<open>go_back_to_order\<close> sets the step to \<open>order_collection\<close> and
  keeps the items, the total, the order type, the delivery address and
  \<open>payment_confirmed\<close> as they were (a confirmed payment stays confirmed). Besides the
  step, only the tool's message is added to the conversation.
\<close>

theorem go_back_to_order_frame:
  assumes "current_step s = Some Payment"
  shows "apply_update (go_back_to_order tid s) s =
           s\<lparr>messages := messages s @ [ToolMessage ''Going back to order collection.'' tid],
             current_step := Some Order_Collection\<rparr>
       \<and> current_step (apply_update (go_back_to_order tid s) s) = Some Order_Collection
       \<and> order_items (apply_update (go_back_to_order tid s) s) = order_items s
       \<and> order_total (apply_update (go_back_to_order tid s) s) = order_total s
       \<and> order_type (apply_update (go_back_to_order tid s) s) = order_type s
       \<and> delivery_address (apply_update (go_back_to_order tid s) s) = delivery_address s
       \<and> payment_confirmed (apply_update (go_back_to_order tid s) s) = payment_confirmed s"
  by (simp add: go_back_to_order_def apply_update_def only_message_def)

theorem go_back_to_order_frame_witness:
  "current_step (initial_state\<lparr>current_step := Some Payment, payment_confirmed := Some True\<rparr>)
     = Some Payment
   \<and> payment_confirmed (apply_update (go_back_to_order ''call_1''
         (initial_state\<lparr>current_step := Some Payment, payment_confirmed := Some True\<rparr>))
         (initial_state\<lparr>current_step := Some Payment, payment_confirmed := Some True\<rparr>))
       = Some True
   \<and> current_step (apply_update (go_back_to_order ''call_1''
         (initial_state\<lparr>current_step := Some Payment, payment_confirmed := Some True\<rparr>))
         (initial_state\<lparr>current_step := Some Payment, payment_confirmed := Some True\<rparr>))
       = Some Order_Collection"
proof -
  have h: "current_step (initial_state\<lparr>current_step := Some Payment,
             payment_confirmed := Some True\<rparr>) = Some Payment"
    by simp
  show ?thesis
    using h go_back_to_order_frame [OF h, of "''call_1''"] by simp
qed

subsection \<open>The running total\<close>




subsection \<open>The cheese pizza scenario\<close>

text \<open>
  C7, as the code has it. The scenario \<open>start_order\<close>, \<open>add_item("Cheese Pizza",
  "medium", 1, [], 9.25)\<close>, \<open>finish_order_collection\<close>, \<open>set_order_type("pickup")\<close>,
  \<open>confirm_order\<close>, \<open>process_payment("cash")\<close> from the first state ends at step
  \<open>payment\<close> with \<open>payment_confirmed = True\<close>; the final total is the float nearest to
  10.03625, and the payment message shows it as 10.04 (tax 0.79).
\<close>

theorem cheese_pizza_scenario:
  "run_calls
     [(Call_start_order, ''call_1''),
      (Call_add_item ''Cheese Pizza'' ''medium'' 1 [] (float_literal (925 / 100)), ''call_2''),
      (Call_finish_order_collection, ''call_3''),
      (Call_set_order_type Pickup, ''call_4''),
      (Call_confirm_order, ''call_5''),
      (Call_process_payment ''cash'', ''call_6'')] initial_state
   = \<lparr>messages =
        [HumanMessage ''Hi, I'd like to order some pizza'',
         ToolMessage ''Ready to take order. Order collection started.'' ''call_1'',
         ToolMessage ''Added: 1x medium Cheese Pizza ($9.25 each). Running total: $9.25''
           ''call_2'',
         ToolMessage ''Order collection complete. Now asking about pickup or delivery.''
           ''call_3'',
         ToolMessage ''Order type set to: pickup'' ''call_4'',
         ToolMessage ''Order confirmed! Moving to payment.'' ''call_5'',
         ToolMessage (''Payment processed via cash. Subtotal: $9.25, Tax: $0.79, ''
           @ ''Total: $10.04. Order placed successfully!'') ''call_6''],
      current_step = Some Payment,
      order_items = Some [\<lparr>name = ''Cheese Pizza'', size = ''medium'', quantity = 1,
                           extras = [], price = 37 / 4\<rparr>],
      order_type = Some Pickup,
      delivery_address = None,
      order_total = Some (37 / 4),
      payment_confirmed = Some True\<rparr>
   \<and> payment_final_total (37 / 4) = 5649906470024643 / 562949953421312
   \<and> round_half_even (payment_final_total (37 / 4) * 100) = 1004"
  by code_simp

text \<open>
  C7, as stated, says that the final total of this scenario is 10.03 when rounded to
  cents. It is not: the two decimals of the final total are not \<open>10.03\<close>.
\<close>

theorem cheese_pizza_scenario_counterexample:
  "format_2f (payment_final_total (get (order_total (run_calls
       [(Call_start_order, ''call_1''),
        (Call_add_item ''Cheese Pizza'' ''medium'' 1 [] (float_literal (925 / 100)), ''call_2''),
        (Call_finish_order_collection, ''call_3''),
        (Call_set_order_type Pickup, ''call_4''),
        (Call_confirm_order, ''call_5'')] initial_state)) 0)) \<noteq> ''10.03''"
  by code_simp

subsection \<open>Payment\<close>



text \<open>
  C10. When \<open>order_total\<close> is not set (no order was ever started) or is 0,
  \<open>process_payment\<close> does not fail: it takes the subtotal as 0.0, the tax and the
  final total are 0, and \<open>payment_confirmed\<close> becomes \<open>True\<close>.
\<close>

theorem process_payment_empty_order:
  assumes "order_total s = None \<or> order_total s = Some 0"
  shows "run_tool (Call_process_payment m) tid s =
           s\<lparr>messages := messages s @
               [ToolMessage
                  (''Payment processed via '' @ m
                     @ ''. Subtotal: $0.00, Tax: $0.00, Total: $0.00. Order placed successfully!'')
                  tid],
             payment_confirmed := Some True\<rparr>
       \<and> get (order_total s) (float_literal 0) = 0
       \<and> payment_tax 0 = 0
       \<and> payment_final_total 0 = 0
       \<and> payment_confirmed (run_tool (Call_process_payment m) tid s) = Some True"
  using assms
  by (auto simp add: run_process_payment payment_tax_zero payment_final_total_zero format_2f_zero)

theorem process_payment_empty_order_witness:
  "order_total initial_state = None
   \<and> payment_confirmed (run_tool (Call_process_payment ''cash'') ''call_1'' initial_state)
       = Some True
   \<and> messages (run_tool (Call_process_payment ''cash'') ''call_1'' initial_state)
       = [HumanMessage ''Hi, I'd like to order some pizza'',
          ToolMessage (''Payment processed via cash. Subtotal: $0.00, Tax: $0.00, ''
            @ ''Total: $0.00. Order placed successfully!'') ''call_1'']"
proof -
  have h: "order_total initial_state = None \<or> order_total initial_state = Some 0"
    by (simp add: initial_state_def)
  show ?thesis
    using process_payment_empty_order [OF h, of "''cash''" "''call_1''"]
    by (simp add: initial_state_def)
qed

subsection \<open>Removing an item\<close>

text \<open>
  C4. At step \<open>order_collection\<close>, \<open>remove_item(i)\<close> with \<open>1 \<le> i \<le> len(items)\<close> removes
  the item at the 1-based position \<open>i\<close> and keeps the others in their order; the new
  \<open>order_total\<close> is the sum over the items that are kept, whatever the total was before.
  For every other \<open>i\<close> the tool only answers that the item number is invalid, with the
  number of items: the items, the total and the step are as before.
\<close>

theorem remove_item_by_position:
  assumes "current_step s = Some Order_Collection"
    and "items = get (order_items s) []"
    and "kept = take (nat (i - 1)) items @ drop (nat i) items"
  shows "(1 \<le> i \<and> i \<le> int (length items) \<longrightarrow>
            order_items (run_tool (Call_remove_item i) tid s) = Some kept
          \<and> length kept = length items - 1
          \<and> (\<forall>j. j < nat (i - 1) \<longrightarrow> kept ! j = items ! j)
          \<and> (\<forall>j. nat (i - 1) \<le> j \<and> Suc j < length items \<longrightarrow> kept ! j = items ! Suc j)
          \<and> order_total (run_tool (Call_remove_item i) tid s)
              = Some (py_sum (map line_total kept))
          \<and> order_total (run_tool (Call_remove_item i) tid (s\<lparr>order_total := t\<rparr>))
              = Some (py_sum (map line_total kept))
          \<and> current_step (run_tool (Call_remove_item i) tid s) = Some Order_Collection)
       \<and> (i < 1 \<or> int (length items) < i \<longrightarrow>
            run_tool (Call_remove_item i) tid s =
              s\<lparr>messages := messages s @
                  [ToolMessage (''Invalid item number. Order has ''
                      @ str_int (int (length items)) @ '' items.'') tid]\<rparr>
          \<and> order_items (run_tool (Call_remove_item i) tid s) = order_items s
          \<and> order_total (run_tool (Call_remove_item i) tid s) = order_total s
          \<and> current_step (run_tool (Call_remove_item i) tid s) = current_step s)"
proof (intro conjI impI)
  assume range: "1 \<le> i \<and> i \<le> int (length items)"
  then have valid: "1 \<le> i" "i \<le> int (length (get (order_items s) []))"
    using assms(2) by simp_all
  from range have k: "nat (i - 1) < length items" and suc: "nat i = Suc (nat (i - 1))"
    by linarith+
  have kept: "kept = take (nat (i - 1)) items @ drop (Suc (nat (i - 1))) items"
    using assms(3) suc by simp
  show "order_items (run_tool (Call_remove_item i) tid s) = Some kept"
    using assms(2,3) by (simp add: run_remove_item_valid [OF valid])
  show "length kept = length items - 1"
    unfolding kept by (rule nth_without(1) [OF k])
  show "\<forall>j. j < nat (i - 1) \<longrightarrow> kept ! j = items ! j"
    unfolding kept using nth_without(2) [OF k] by blast
  show "\<forall>j. nat (i - 1) \<le> j \<and> Suc j < length items \<longrightarrow> kept ! j = items ! Suc j"
    unfolding kept using nth_without(3) [OF k] by blast
  show "order_total (run_tool (Call_remove_item i) tid s) = Some (py_sum (map line_total kept))"
    using assms(2,3) by (simp add: run_remove_item_valid [OF valid])
  have valid': "i \<le> int (length (get (order_items (s\<lparr>order_total := t\<rparr>)) []))"
    using valid by simp
  show "order_total (run_tool (Call_remove_item i) tid (s\<lparr>order_total := t\<rparr>))
          = Some (py_sum (map line_total kept))"
    using assms(2,3) by (simp add: run_remove_item_valid [OF valid(1) valid'])
  show "current_step (run_tool (Call_remove_item i) tid s) = Some Order_Collection"
    using assms(1) by (simp add: run_remove_item_valid [OF valid])
next
  assume "i < 1 \<or> int (length items) < i"
  then have invalid: "i < 1 \<or> int (length (get (order_items s) [])) < i"
    using assms(2) by simp
  show "run_tool (Call_remove_item i) tid s =
          s\<lparr>messages := messages s @
              [ToolMessage (''Invalid item number. Order has ''
                  @ str_int (int (length items)) @ '' items.'') tid]\<rparr>"
    using assms(2) by (simp add: run_remove_item_invalid [OF invalid])
  show "order_items (run_tool (Call_remove_item i) tid s) = order_items s"
    by (simp add: run_remove_item_invalid [OF invalid])
  show "order_total (run_tool (Call_remove_item i) tid s) = order_total s"
    by (simp add: run_remove_item_invalid [OF invalid])
  show "current_step (run_tool (Call_remove_item i) tid s) = current_step s"
    by (simp add: run_remove_item_invalid [OF invalid])
qed

theorem remove_item_by_position_witness:
  "current_step two_item_order = Some Order_Collection
   \<and> run_tool (Call_remove_item 5) ''call_4'' two_item_order
       = two_item_order\<lparr>messages :=
           [ToolMessage ''Invalid item number. Order has 2 items.'' ''call_4'']\<rparr>
   \<and> order_items (run_tool (Call_remove_item 1) ''call_4'' two_item_order)
       = Some [\<lparr>name = ''Coke'', size = ''small'', quantity = 2, extras = [], price = 1\<rparr>]
   \<and> order_total (run_tool (Call_remove_item 1) ''call_4'' two_item_order) = Some 2"
proof -
  have h: "current_step two_item_order = Some Order_Collection"
    by (simp add: two_item_order_def)
  have n: "str_int 2 = ''2''"
    by code_simp
  have t: "py_sum (map line_total
             [\<lparr>name = ''Coke'', size = ''small'', quantity = 2, extras = [], price = 1\<rparr>]) = 2"
    by code_simp
  have out: "run_tool (Call_remove_item 5) ''call_4'' two_item_order
       = two_item_order\<lparr>messages :=
           [ToolMessage ''Invalid item number. Order has 2 items.'' ''call_4'']\<rparr>"
    using remove_item_by_position [where i = 5 and tid = "''call_4''" and t = "Some 0", OF h refl refl] n
    by (simp add: two_item_order_def)
  have inside: "order_items (run_tool (Call_remove_item 1) ''call_4'' two_item_order)
       = Some [\<lparr>name = ''Coke'', size = ''small'', quantity = 2, extras = [], price = 1\<rparr>]
     \<and> order_total (run_tool (Call_remove_item 1) ''call_4'' two_item_order) = Some 2"
    using remove_item_by_position [where i = 1 and tid = "''call_4''" and t = "Some 0", OF h refl refl] t
    by (simp add: two_item_order_def)
  show ?thesis
    using h out inside by simp
qed

subsection \<open>Adding an item\<close>




subsection \<open>The step selector\<close>

text \<open>
  C9. For every state, \<open>apply_step_config\<close> never fails and hands to the model call the
  tools of the \<open>STEP_CONFIG\<close> entry of the current step (\<open>greeting\<close> when no step is set)
  and that entry's prompt with each placeholder replaced by the state's items, total (two
  decimals), order type and delivery address (\<open>not set\<close> and \<open>N/A\<close> when absent). The
  state of the request is not changed.
\<close>

theorem apply_step_config_projection:
  "apply_step_config f request handler =
     Inr (handler (request
       \<lparr>system_prompt := Some (fill_placeholders f (state request)
           (prompt (STEP_CONFIG (get (current_step (state request)) Greeting)))),
        request_tools := tools (STEP_CONFIG (get (current_step (state request)) Greeting))\<rparr>))
   \<and> state (request
       \<lparr>system_prompt := Some (fill_placeholders f (state request)
           (prompt (STEP_CONFIG (get (current_step (state request)) Greeting)))),
        request_tools := tools (STEP_CONFIG (get (current_step (state request)) Greeting))\<rparr>)
     = state request"
  by (simp add: apply_step_config_def Let_def format_step_prompt)

subsection \<open>Operations and steps\<close>

text \<open>
  C1, as the code has it. No operation looks at \<open>current_step\<close>: the command it returns
  is the same at every step, and it always carries a tool message, never an error. What
  keeps an operation to its step is the step selector, which offers \<open>add_item\<close> not at
  \<open>greeting\<close> and \<open>confirm_order\<close> at \<open>order_summary\<close> only. Called at any step,
  \<open>add_item\<close> appends its item, and \<open>confirm_order\<close> moves to \<open>payment\<close>, with or
  without items.
\<close>

theorem operations_ignore_current_step:
  "invoke c tid (s\<lparr>current_step := st\<rparr>) = invoke c tid s
   \<and> upd_messages (invoke c tid s) \<noteq> []
   \<and> Tool_add_item \<notin> set (tools (STEP_CONFIG Greeting))
   \<and> (Tool_confirm_order \<in> set (tools (STEP_CONFIG step))) = (step = Order_Summary)
   \<and> order_items (run_tool (Call_add_item n sz q ex p) tid s)
       = Some (get (order_items s) []
                 @ [\<lparr>name = n, size = sz, quantity = q, extras = ex, price = p\<rparr>])
   \<and> current_step (run_tool Call_confirm_order tid s) = Some Payment"
proof (intro conjI)
  show "invoke c tid (s\<lparr>current_step := st\<rparr>) = invoke c tid s"
    by (rule invoke_ignores_step)
  show "upd_messages (invoke c tid s) \<noteq> []"
    by (cases c)
       (simp_all add: start_order_def add_item_def remove_item_def finish_order_collection_def
          set_order_type_def set_delivery_address_def confirm_order_def add_more_items_def
          process_payment_def go_back_to_order_def only_message_def Let_def)
  show "Tool_add_item \<notin> set (tools (STEP_CONFIG Greeting))"
    by simp
  show "(Tool_confirm_order \<in> set (tools (STEP_CONFIG step))) = (step = Order_Summary)"
    by (cases step) simp_all
  show "order_items (run_tool (Call_add_item n sz q ex p) tid s)
       = Some (get (order_items s) []
                 @ [\<lparr>name = n, size = sz, quantity = q, extras = ex, price = p\<rparr>])"
    by (simp add: run_add_item)
  show "current_step (run_tool Call_confirm_order tid s) = Some Payment"
    by (simp add: run_tool_def confirm_order_def apply_update_def only_message_def)
qed

text \<open>
  C1, as stated, says that an operation invoked outside its step fails with
  \<open>InvalidStepTransition\<close> and leaves the state as it is. At \<open>greeting\<close>, \<open>add_item\<close>
  adds its item and sets the total; \<open>confirm_order\<close> moves to \<open>payment\<close> from
  \<open>order_summary\<close> with no items, and from \<open>greeting\<close>.
\<close>

theorem step_guard_counterexample:
  "current_step (initial_state\<lparr>current_step := Some Greeting\<rparr>) = Some Greeting
   \<and> order_items (run_tool (Call_add_item ''Cheese Pizza'' ''medium'' 1 [] (37 / 4)) ''call_1''
         (initial_state\<lparr>current_step := Some Greeting\<rparr>))
       = Some [\<lparr>name = ''Cheese Pizza'', size = ''medium'', quantity = 1, extras = [],
                 price = 37 / 4\<rparr>]
   \<and> order_items (initial_state\<lparr>current_step := Some Greeting\<rparr>) = None
   \<and> order_total (run_tool (Call_add_item ''Cheese Pizza'' ''medium'' 1 [] (37 / 4)) ''call_1''
         (initial_state\<lparr>current_step := Some Greeting\<rparr>))
       = Some (37 / 4)
   \<and> current_step (run_tool Call_confirm_order ''call_1''
         (initial_state\<lparr>current_step := Some Order_Summary, order_items := Some []\<rparr>))
       = Some Payment
   \<and> current_step (run_tool Call_confirm_order ''call_1''
         (initial_state\<lparr>current_step := Some Greeting\<rparr>))
       = Some Payment"
  by code_simp

end
